theory Spec2Isabelle
  imports Main "HOL-Library.Word" "HOL-Library.Signed_Division"
begin

unbundle bit_operations_syntax

section \<open>The pointer-bumping allocator of pb-alloc.c\<close>

text \<open>
  The allocator is modelled for an LP64 target: \<^verbatim>\<open>intptr_t\<close>, \<^verbatim>\<open>size_t\<close> and object
  pointers are 64-bit words. Arithmetic on them wraps modulo \<open>2 ^ 64\<close>; the values of
  \<^verbatim>\<open>intptr_t\<close> are read in two's complement wherever the source compares them or takes a
  remainder. The address space is a total map from addresses to bytes.
\<close>

subsection \<open>Machine types\<close>

type_synonym intptr_t = "64 word"
type_synonym size_t = "64 word"
type_synonym ptr = "64 word"
type_synonym byte = "8 word"
type_synonym memory = "ptr \<Rightarrow> byte"

definition NULL :: ptr where
  "NULL = 0"

text \<open>\<^verbatim>\<open>MAP_FAILED\<close> is \<^verbatim>\<open>(void * ) -1\<close>.\<close>

definition MAP_FAILED :: ptr where
  "MAP_FAILED = - 1"

text \<open>\<^verbatim>\<open>#define HEAP_SIZE GB(2)\<close>, that is \<^verbatim>\<open>(size_t)2 * 1024 * 1024 * 1024\<close>.\<close>

definition KB :: "size_t \<Rightarrow> size_t" where
  "KB n = n * 1024"

definition MB :: "size_t \<Rightarrow> size_t" where
  "MB n = KB n * 1024"

definition GB :: "size_t \<Rightarrow> size_t" where
  "GB n = MB n * 1024"

definition HEAP_SIZE :: size_t where
  "HEAP_SIZE = GB 2"

text \<open>\<^verbatim>\<open>sizeof(header_s)\<close>: the header is one \<^verbatim>\<open>size_t\<close>.\<close>

definition sizeof_header :: size_t where
  "sizeof_header = 8"

text \<open>
  The remainder \<^verbatim>\<open>a % b\<close> of C on \<^verbatim>\<open>intptr_t\<close>: the quotient is truncated towards zero,
  so the remainder has the sign of \<open>a\<close>.
\<close>

definition c_rem :: "intptr_t \<Rightarrow> intptr_t \<Rightarrow> intptr_t" where
  "c_rem a b = word_of_int (sint a smod sint b)"

subsection \<open>Memory\<close>

text \<open>
  The store \<^verbatim>\<open>header_ptr->size = size\<close> writes the eight bytes of a \<^verbatim>\<open>size_t\<close>, least
  significant byte at the lowest address; the load \<^verbatim>\<open>old_header->size\<close> reads them back.
\<close>

definition store_size :: "memory \<Rightarrow> ptr \<Rightarrow> size_t \<Rightarrow> memory" where
  "store_size m a v =
     (\<lambda>x. if x - a < 8 then ucast (drop_bit (8 * unat (x - a)) v) else m x)"

definition load_size :: "memory \<Rightarrow> ptr \<Rightarrow> size_t" where
  "load_size m a =
     ucast (m a) OR push_bit 8 (ucast (m (a + 1))) OR push_bit 16 (ucast (m (a + 2)))
     OR push_bit 24 (ucast (m (a + 3))) OR push_bit 32 (ucast (m (a + 4)))
     OR push_bit 40 (ucast (m (a + 5))) OR push_bit 48 (ucast (m (a + 6)))
     OR push_bit 56 (ucast (m (a + 7)))"

text \<open>
  \<^verbatim>\<open>memset(dst, c, n)\<close> and \<^verbatim>\<open>memcpy(dst, src, n)\<close> of the C library, on the \<open>n\<close> bytes
  from \<open>dst\<close>. The copy reads the memory as it was before the call (the C library leaves
  the result of an overlapping copy open).
\<close>

definition memset :: "memory \<Rightarrow> ptr \<Rightarrow> byte \<Rightarrow> size_t \<Rightarrow> memory" where
  "memset m dst c n = (\<lambda>x. if x - dst < n then c else m x)"

definition memcpy :: "memory \<Rightarrow> ptr \<Rightarrow> ptr \<Rightarrow> size_t \<Rightarrow> memory" where
  "memcpy m dst src n = (\<lambda>x. if x - dst < n then m (src + (x - dst)) else m x)"

subsection \<open>The allocator's state\<close>

text \<open>
  The three globals of the source, the bytes of the address space, and the environment:
  \<open>mmap_ret\<close> is the value the call of \<^verbatim>\<open>mmap\<close> in \<^verbatim>\<open>init\<close> returns.
\<close>

record allocator =
  free_addr :: intptr_t
  start_addr :: intptr_t
  end_addr :: intptr_t
  mem :: memory
  mmap_ret :: ptr

text \<open>The state of a process that has not called the allocator yet.\<close>

definition fresh :: "ptr \<Rightarrow> allocator" where
  "fresh base =
     \<lparr>free_addr = 0, start_addr = 0, end_addr = 0, mem = (\<lambda>_. 0), mmap_ret = base\<rparr>"

text \<open>
  Modelled from the spec: the macro \<^verbatim>\<open>ERROR\<close> of \<^verbatim>\<open>safeio.h\<close>, which is not among the
  sources, reports a fatal condition and terminates the process. A terminated call is
  the value \<open>Inl Reservation_failed\<close>. The macro \<^verbatim>\<open>DEBUG\<close> only writes a log line.
\<close>

datatype fatal = Reservation_failed

subsection \<open>The operations\<close>

definition init :: "allocator \<Rightarrow> fatal + allocator" where
  "init s =
     (if start_addr s = 0 then
        (let heap = mmap_ret s in
         if heap = MAP_FAILED then Inl Reservation_failed
         else Inr (s\<lparr>start_addr := heap, end_addr := heap + HEAP_SIZE, free_addr := heap\<rparr>))
      else Inr s)"

text \<open>The padding of the frontier, lines 144 to 150 of the source.\<close>

definition align_frontier :: "intptr_t \<Rightarrow> intptr_t" where
  "align_frontier fa =
     (if c_rem fa 16 <s 8 then fa + 24 - c_rem fa 16 else fa + 8 - c_rem fa 16)"

text \<open>
  \<^verbatim>\<open>malloc\<close>. The padded frontier is assigned to \<^verbatim>\<open>free_addr\<close> before the test against
  \<^verbatim>\<open>end_addr\<close>, as in the source; the header is stored only on the path that returns the
  block.
\<close>

definition malloc :: "size_t \<Rightarrow> allocator \<Rightarrow> fatal + ptr \<times> allocator" where
  "malloc sz s0 =
     (case init s0 of
        Inl e \<Rightarrow> Inl e
      | Inr s \<Rightarrow>
          if sz = 0 then Inr (NULL, s)
          else
            (let s1 = s\<lparr>free_addr := align_frontier (free_addr s)\<rparr>;
                 total_size = sz + sizeof_header;
                 header_ptr = free_addr s1;
                 block_ptr = free_addr s1 + sizeof_header;
                 new_free_addr = free_addr s1 + total_size
             in if end_addr s1 <s new_free_addr then Inr (NULL, s1)
                else Inr (block_ptr,
                          s1\<lparr>free_addr := new_free_addr,
                             mem := store_size (mem s1) header_ptr sz\<rparr>)))"

text \<open>\<^verbatim>\<open>free\<close> only logs its argument.\<close>

definition free :: "ptr \<Rightarrow> allocator \<Rightarrow> allocator" where
  "free p s = s"

definition calloc :: "size_t \<Rightarrow> size_t \<Rightarrow> allocator \<Rightarrow> fatal + ptr \<times> allocator" where
  "calloc nmemb sz s =
     (let block_size = nmemb * sz in
      case malloc block_size s of
        Inl e \<Rightarrow> Inl e
      | Inr (block_ptr, s1) \<Rightarrow>
          if block_ptr \<noteq> NULL
          then Inr (block_ptr, s1\<lparr>mem := memset (mem s1) block_ptr 0 block_size\<rparr>)
          else Inr (block_ptr, s1))"

definition realloc :: "ptr \<Rightarrow> size_t \<Rightarrow> allocator \<Rightarrow> fatal + ptr \<times> allocator" where
  "realloc p sz s =
     (if p = NULL then malloc sz s
      else if sz = 0 then Inr (NULL, free p s)
      else
        (let old_header = p - sizeof_header;
             old_size = load_size (mem s) old_header
         in if sz \<le> old_size then Inr (p, s)
            else
              (case malloc sz s of
                 Inl e \<Rightarrow> Inl e
               | Inr (new_ptr, s1) \<Rightarrow>
                   if new_ptr \<noteq> NULL
                   then Inr (new_ptr, free p (s1\<lparr>mem := memcpy (mem s1) new_ptr p old_size\<rparr>))
                   else Inr (new_ptr, s1))))"


subsection \<open>Derived notions used by the properties\<close>

text \<open>
  The test of line 173 of the source, on a state whose padding has not been applied yet:
  the region is exhausted for a request of \<open>sz\<close> bytes when the padded frontier plus
  the header and the block passes \<^verbatim>\<open>end_addr\<close>.
\<close>

definition exhausted :: "size_t \<Rightarrow> allocator \<Rightarrow> bool" where
  "exhausted sz s = (end_addr s <s align_frontier (free_addr s) + (sz + sizeof_header))"

text \<open>Sequencing of calls: a terminated call ends the run.\<close>

definition and_then :: "'e + 'a \<Rightarrow> ('a \<Rightarrow> 'e + 'b) \<Rightarrow> 'e + 'b" where
  "and_then r f = (case r of Inl e \<Rightarrow> Inl e | Inr x \<Rightarrow> f x)"

text \<open>The caller writes one byte of a block it owns.\<close>

definition poke :: "ptr \<Rightarrow> byte \<Rightarrow> allocator \<Rightarrow> allocator" where
  "poke a b s = s\<lparr>mem := (mem s)(a := b)\<rparr>"

text \<open>The state right after a successful reservation at \<open>base\<close>.\<close>

definition reserved :: "ptr \<Rightarrow> allocator" where
  "reserved base =
     \<lparr>free_addr = base, start_addr = base, end_addr = base + HEAP_SIZE,
      mem = (\<lambda>_. 0), mmap_ret = base\<rparr>"

lemmas const_defs = NULL_def MAP_FAILED_def HEAP_SIZE_def GB_def MB_def KB_def sizeof_header_def

lemmas run_defs = const_defs malloc_def calloc_def realloc_def free_def init_def
  align_frontier_def c_rem_def signed_modulo_int_def exhausted_def and_then_def
  fresh_def reserved_def poke_def store_size_def load_size_def memset_def memcpy_def Let_def
  word_sless_alt word_sle_eq

section \<open>Properties\<close>

subsection \<open>The header store and load\<close>

lemma bytes_join:
  "(ucast (ucast (v :: 64 word) :: 8 word) :: 64 word)
     OR push_bit 8 (ucast (ucast (drop_bit 8 v) :: 8 word))
     OR push_bit 16 (ucast (ucast (drop_bit 16 v) :: 8 word))
     OR push_bit 24 (ucast (ucast (drop_bit 24 v) :: 8 word))
     OR push_bit 32 (ucast (ucast (drop_bit 32 v) :: 8 word))
     OR push_bit 40 (ucast (ucast (drop_bit 40 v) :: 8 word))
     OR push_bit 48 (ucast (ucast (drop_bit 48 v) :: 8 word))
     OR push_bit 56 (ucast (ucast (drop_bit 56 v) :: 8 word)) = v"
  (is "?lhs = v")
proof (rule bit_word_eqI)
  fix n :: nat
  assume "n < LENGTH(64)"
  then have n: "n < 64" by simp
  consider "n < 8" | "8 \<le> n" "n < 16" | "16 \<le> n" "n < 24" | "24 \<le> n" "n < 32"
    | "32 \<le> n" "n < 40" | "40 \<le> n" "n < 48" | "48 \<le> n" "n < 56" | "56 \<le> n" "n < 64"
    using n by linarith
  then show "bit ?lhs n = bit v n"
    by cases (auto simp: bit_simps)
qed

lemma store_size_at:
  "i < 8 \<Longrightarrow> store_size m a v (a + i) = ucast (drop_bit (8 * unat i) v)"
  by (simp add: store_size_def)

lemma store_size_outside:
  "\<not> x - a < 8 \<Longrightarrow> store_size m a v x = m x"
  by (simp add: store_size_def)

lemma load_store_size: "load_size (store_size m a v) a = v"
proof -
  have b: "store_size m a v (a + 0) = ucast (drop_bit (8 * unat (0::64 word)) v)"
    by (rule store_size_at) simp
  show ?thesis
    unfolding load_size_def
    using b store_size_at [of 1 m a v] store_size_at [of 2 m a v] store_size_at [of 3 m a v]
      store_size_at [of 4 m a v] store_size_at [of 5 m a v] store_size_at [of 6 m a v]
      store_size_at [of 7 m a v]
    by (simp add: bytes_join)
qed

subsection \<open>The padding\<close>




lemma sint_word_of_small:
  "- (2 ^ 63) \<le> (r::int) \<Longrightarrow> r < 2 ^ 63 \<Longrightarrow> sint (word_of_int r :: 64 word) = r"
  by (simp add: sint_sbintrunc' signed_take_bit_int_eq_self)

text \<open>
  On a non-negative frontier the padded data address is the frontier plus a distance
  between 1 and 32.
\<close>

lemma align_frontier_distance:
  assumes "0 \<le> sint fa"
  shows "\<exists>d. 1 \<le> d \<and> d \<le> 32 \<and> align_frontier fa + sizeof_header = word_of_int (sint fa + d)"
proof -
  let ?r = "sint fa mod 16"
  have r: "0 \<le> ?r" "?r < 16" by simp_all
  have c: "c_rem fa 16 = word_of_int ?r"
    using assms by (simp add: c_rem_def signed_modulo_int_def sgn_if)
  have "- (2 ^ 63) \<le> (0::int)" and "(16::int) < 2 ^ 63"
    by simp_all
  with r have s: "sint (word_of_int ?r :: 64 word) = ?r"
    by (intro sint_word_of_small) linarith+
  have lt: "c_rem fa 16 <s 8 \<longleftrightarrow> ?r < 8"
    by (simp add: c word_sless_alt s)
  show ?thesis
  proof (cases "?r < 8")
    case True
    then have "align_frontier fa + sizeof_header = fa + 32 - word_of_int ?r"
      using lt by (simp add: align_frontier_def c sizeof_header_def)
    also have "\<dots> = word_of_int (sint fa + (32 - ?r))"
      by simp
    finally show ?thesis using r True
      by (intro exI [of _ "32 - ?r"]) simp
  next
    case False
    then have "align_frontier fa + sizeof_header = fa + 16 - word_of_int ?r"
      using lt by (simp add: align_frontier_def c sizeof_header_def)
    also have "\<dots> = word_of_int (sint fa + (16 - ?r))"
      by simp
    finally show ?thesis using r False
      by (intro exI [of _ "16 - ?r"]) simp
  qed
qed

lemma word_of_int_distinct:
  assumes "0 < a - b" and "a - b < 2 ^ 64"
  shows "(word_of_int a :: 64 word) \<noteq> word_of_int b"
proof
  assume "(word_of_int a :: 64 word) = word_of_int b"
  then have "a mod 2 ^ 64 = b mod 2 ^ 64"
    by (simp add: word_of_int_eq_iff take_bit_eq_mod)
  then have "(2 :: int) ^ 64 dvd a - b"
    by (simp add: mod_eq_dvd_iff)
  with assms show False
    using zdvd_not_zless by blast
qed

lemma sint_bounds64: "- (2 ^ 63) \<le> sint (w :: 64 word)" "sint (w :: 64 word) < 2 ^ 63"
  using sint_ge [of w] sint_lt [of w] by simp_all


lemma align_frontier_data_above:
  assumes "0 \<le>s p" and "p \<le>s fa"
  shows "align_frontier fa + sizeof_header \<noteq> p"
proof -
  have p: "0 \<le> sint p" "sint p \<le> sint fa"
    using assms by (simp_all add: word_sle_eq)
  then have nn: "0 \<le> sint fa" by simp
  obtain d where d: "1 \<le> d" "d \<le> 32"
    and eq: "align_frontier fa + sizeof_header = word_of_int (sint fa + d)"
    using align_frontier_distance [OF nn] by blast
  have "(word_of_int (sint fa + d) :: 64 word) \<noteq> word_of_int (sint p)"
    using p d sint_bounds64 [of fa] by (intro word_of_int_distinct) simp_all
  then show ?thesis by (simp add: eq)
qed

subsection \<open>The three outcomes of a request\<close>

lemma init_reserved: "start_addr s \<noteq> 0 \<Longrightarrow> init s = Inr s"
  by (simp add: init_def)

lemma init_mem: "init s = Inr s1 \<Longrightarrow> mem s1 = mem s"
  by (auto simp: init_def Let_def split: if_splits)


lemma malloc_exhausted:
  assumes "sz \<noteq> 0" and "init s = Inr s1" and "exhausted sz s1"
  shows "malloc sz s = Inr (NULL, s1\<lparr>free_addr := align_frontier (free_addr s1)\<rparr>)"
  using assms by (simp add: malloc_def exhausted_def Let_def)

lemma malloc_fits:
  assumes "sz \<noteq> 0" and "init s = Inr s1" and "\<not> exhausted sz s1"
  shows "malloc sz s =
     Inr (align_frontier (free_addr s1) + sizeof_header,
          s1\<lparr>free_addr := align_frontier (free_addr s1) + (sz + sizeof_header),
             mem := store_size (mem s1) (align_frontier (free_addr s1)) sz\<rparr>)"
  using assms by (simp add: malloc_def exhausted_def Let_def)


subsection \<open>Successful requests\<close>



subsection \<open>Resizing\<close>

text \<open>
  Claim C6. Let \<open>p\<close> be a non-null pointer whose header holds \<open>old_size\<close>, as it does
  for a pointer returned by \<^verbatim>\<open>malloc\<close> with that size, and let \<open>new_size\<close> be greater
  than \<open>old_size\<close>. If the region is exhausted for \<open>new_size\<close>, \<^verbatim>\<open>realloc\<close> returns
  null and no byte of memory changes: the header below \<open>p\<close> still holds \<open>old_size\<close>
  and the data bytes of the block are as before.
\<close>

theorem realloc_grow_exhausted_keeps_block:
  assumes "p \<noteq> NULL" and "load_size (mem s) (p - sizeof_header) = old_size"
    and "old_size < new_size" and "init s = Inr s1" and "exhausted new_size s1"
  shows "\<exists>s'. realloc p new_size s = Inr (NULL, s') \<and> mem s' = mem s
           \<and> load_size (mem s') (p - sizeof_header) = old_size"
proof -
  let ?s' = "s1\<lparr>free_addr := align_frontier (free_addr s1)\<rparr>"
  have nz: "new_size \<noteq> 0"
    using assms(3) by auto
  have m: "malloc new_size s = Inr (NULL, ?s')"
    using nz assms(4,5) by (rule malloc_exhausted)
  have "\<not> new_size \<le> old_size"
    using assms(3) by simp
  then have "realloc p new_size s = Inr (NULL, ?s')"
    using assms(1,2) nz m by (simp add: realloc_def Let_def)
  moreover have "mem ?s' = mem s"
    using init_mem [OF assms(4)] by simp
  ultimately show ?thesis
    using assms(2) by auto
qed

theorem realloc_grow_exhausted_keeps_block_witness:
  "\<exists>s'. realloc 0x100020 0x80000000
           \<lparr>free_addr = 0x100038, start_addr = 0x100000, end_addr = 0x80100000,
            mem = store_size (\<lambda>_. 0) 0x100018 24, mmap_ret = 0x100000\<rparr>
         = Inr (NULL, s')
       \<and> mem s' = store_size (\<lambda>_. 0) 0x100018 24
       \<and> load_size (mem s') (0x100020 - sizeof_header) = 24"
proof -
  let ?s = "\<lparr>free_addr = 0x100038, start_addr = 0x100000, end_addr = 0x80100000,
            mem = store_size (\<lambda>_. 0) 0x100018 24, mmap_ret = 0x100000 :: ptr\<rparr>"
  have p: "(0x100020 :: ptr) \<noteq> NULL"
    by (simp add: NULL_def)
  have h: "load_size (mem ?s) (0x100020 - sizeof_header) = 24"
    by (simp add: sizeof_header_def load_store_size)
  have g: "(24 :: size_t) < 0x80000000" by simp
  have i: "init ?s = Inr ?s"
    by (simp add: init_def)
  have e: "exhausted 0x80000000 ?s"
    by (simp add: run_defs)
  show ?thesis
    using realloc_grow_exhausted_keeps_block [OF p h g i e] by simp
qed



subsection \<open>Zeroed allocation\<close>




text \<open>
  The product is the one the source computes: \<^verbatim>\<open>calloc(0x8000000000000008, 2)\<close> asks
  \<^verbatim>\<open>malloc\<close> for 16 bytes.
\<close>

lemma calloc_product_wraps:
  "map_sum id fst (calloc 0x8000000000000008 2 (fresh 0x100000))
   = map_sum id fst (malloc 16 (fresh 0x100000))"
  by (simp add: run_defs)

subsection \<open>Requests of size zero\<close>




subsection \<open>Growth by resizing\<close>

text \<open>
  Claim C10, as stated, fails after a request whose size plus the header wraps the
  frontier backwards. From a fresh heap at \<open>0x100000\<close>: \<^verbatim>\<open>p = malloc(8)\<close> returns
  \<open>0x100020\<close>; \<^verbatim>\<open>malloc((size_t)-48)\<close> passes the test against \<^verbatim>\<open>end_addr\<close> and
  leaves the frontier at \<open>0x100000\<close>, below \<open>p\<close>; then \<^verbatim>\<open>realloc(p, 16)\<close> returns
  \<open>p\<close> itself.
\<close>

theorem realloc_grow_in_place_after_wrap:
  "and_then (malloc 8 (fresh 0x100000)) (\<lambda>(p, s1).
     and_then (malloc (- 48) s1) (\<lambda>(r, s2).
       and_then (realloc p 16 s2) (\<lambda>(q, s3).
         Inr (p, free_addr s1, r, free_addr s2, q))))
   = Inr (0x100020, 0x100028, 0x100030, 0x100000, 0x100020)"
  by (simp add: run_defs)

text \<open>
  Claim C10, amended. Let \<open>p\<close> be a non-null pointer whose header holds \<open>old_size\<close>,
  on a reserved heap whose frontier lies at or above \<open>p\<close> (both addresses that are not
  negative as \<^verbatim>\<open>intptr_t\<close>), and let \<open>new_size\<close> be greater than \<open>old_size\<close>. If
  \<^verbatim>\<open>realloc\<close> returns a non-null pointer \<open>q\<close>, then \<open>q\<close> differs from \<open>p\<close>.
\<close>

theorem realloc_grow_returns_other_block:
  assumes "p \<noteq> NULL" and "load_size (mem s) (p - sizeof_header) = old_size"
    and "old_size < new_size" and "start_addr s \<noteq> 0"
    and "0 \<le>s p" and "p \<le>s free_addr s"
    and "realloc p new_size s = Inr (q, s')" and "q \<noteq> NULL"
  shows "q \<noteq> p"
proof -
  have nz: "new_size \<noteq> 0"
    using assms(3) by auto
  have i: "init s = Inr s"
    using assms(4) by (rule init_reserved)
  have g: "\<not> new_size \<le> old_size"
    using assms(3) by simp
  show ?thesis
  proof (cases "exhausted new_size s")
    case True
    have "malloc new_size s = Inr (NULL, s\<lparr>free_addr := align_frontier (free_addr s)\<rparr>)"
      using nz i True by (rule malloc_exhausted)
    then have "realloc p new_size s = Inr (NULL, s\<lparr>free_addr := align_frontier (free_addr s)\<rparr>)"
      using assms(1,2) nz g by (simp add: realloc_def Let_def)
    with assms(7,8) show ?thesis by simp
  next
    case False
    let ?q = "align_frontier (free_addr s) + sizeof_header"
    have "\<exists>s1. malloc new_size s = Inr (?q, s1)"
      using malloc_fits [OF nz i False] by simp
    then obtain s1 where "malloc new_size s = Inr (?q, s1)" ..
    then have "\<exists>s2. realloc p new_size s = Inr (?q, s2)"
      using assms(1,2) nz g by (simp add: realloc_def Let_def)
    with assms(7) have "q = ?q" by auto
    then show ?thesis
      using align_frontier_data_above [OF assms(5,6)] by simp
  qed
qed

theorem realloc_grow_returns_other_block_witness:
  "\<exists>q s'. realloc 0x100020 48
           \<lparr>free_addr = 0x100038, start_addr = 0x100000, end_addr = 0x80100000,
            mem = store_size (\<lambda>_. 0) 0x100018 24, mmap_ret = 0x100000\<rparr>
         = Inr (q, s')
       \<and> q \<noteq> NULL \<and> q \<noteq> 0x100020"
proof -
  let ?s = "\<lparr>free_addr = 0x100038, start_addr = 0x100000, end_addr = 0x80100000,
            mem = store_size (\<lambda>_. 0) 0x100018 24, mmap_ret = 0x100000 :: ptr\<rparr>"
  have p: "(0x100020 :: ptr) \<noteq> NULL"
    by (simp add: NULL_def)
  have h: "load_size (mem ?s) (0x100020 - sizeof_header) = 24"
    by (simp add: sizeof_header_def load_store_size)
  have g: "(24 :: size_t) < 48" by simp
  have i: "start_addr ?s \<noteq> 0" by simp
  have a: "(0 :: intptr_t) \<le>s 0x100020" "(0x100020 :: intptr_t) \<le>s free_addr ?s"
    by (simp_all add: word_sle_eq)
  have "\<exists>q s'. realloc 0x100020 48 ?s = Inr (q, s') \<and> q \<noteq> NULL"
    using h by (simp add: realloc_def malloc_def init_def align_frontier_def c_rem_def
        signed_modulo_int_def const_defs Let_def free_def word_sless_alt)
  then obtain q s' where r: "realloc 0x100020 48 ?s = Inr (q, s')" and q: "q \<noteq> NULL"
    by blast
  have "q \<noteq> 0x100020"
    using realloc_grow_returns_other_block [OF p h g i a r q] .
  with r q show ?thesis by blast
qed

subsection \<open>Where the source departs from the specification\<close>


text \<open>
  Claim C2. When the frontier is 9 to 15 bytes past a multiple of 16 the padding of the
  source subtracts from it. From a fresh heap at \<open>0x100000\<close>, \<^verbatim>\<open>malloc(9)\<close> leaves the
  frontier at \<open>0x100029\<close>; a request of \<open>2 ^ 31\<close> bytes then fails and leaves the
  frontier at \<open>0x100028\<close>, one byte lower.
\<close>

theorem malloc_failure_lowers_frontier:
  "and_then (malloc 9 (fresh 0x100000)) (\<lambda>(p1, s1).
     and_then (malloc 0x80000000 s1) (\<lambda>(p2, s2).
       Inr (p2, free_addr s1, free_addr s2, free_addr s2 <s free_addr s1)))
   = Inr (NULL, 0x100029, 0x100028, True)"
  by (simp add: run_defs)

text \<open>
  Claim C3. From a fresh heap at \<open>0x100000\<close>, \<^verbatim>\<open>malloc(9)\<close> returns \<open>0x100020\<close>: the
  block with its header occupies \<open>0x100018\<close> up to \<open>0x100029\<close>. The next call
  \<^verbatim>\<open>malloc(1)\<close> returns \<open>0x100030\<close>: its header starts at \<open>0x100028\<close>, the last byte
  of the first block, and the store of the header overwrites that byte.
\<close>

theorem malloc_blocks_overlap:
  "and_then (malloc 9 (fresh 0x100000)) (\<lambda>(p1, s1).
     and_then (malloc 1 (poke (p1 + 8) 0x49 s1)) (\<lambda>(p2, s2).
       Inr (p1 - sizeof_header, p1 + 9, p2 - sizeof_header, p2 + 1,
            mem (poke (p1 + 8) 0x49 s1) (p1 + 8), mem s2 (p1 + 8))))
   = Inr (0x100018, 0x100029, 0x100028, 0x100031, 0x49, 1)"
  by (simp add: run_defs)

text \<open>
  Claim C5. From a fresh heap at \<open>0x100000\<close>, \<^verbatim>\<open>p = malloc(9)\<close>; the caller writes
  \<open>0x49\<close> to the last byte \<open>p[8]\<close> of the block; \<^verbatim>\<open>q = realloc(p, 10)\<close> returns a
  non-null \<open>q\<close>. The header of the new block was stored over \<open>p[8]\<close> before the copy,
  so \<open>q[8]\<close> is \<open>0x0A\<close>, not the \<open>0x49\<close> that was at \<open>p[8]\<close> before the call.
\<close>

theorem realloc_grow_loses_last_byte:
  "and_then (malloc 9 (fresh 0x100000)) (\<lambda>(p, s1).
     and_then (realloc p 10 (poke (p + 8) 0x49 s1)) (\<lambda>(q, s2).
       Inr (p, load_size (mem s1) (p - sizeof_header), q,
            mem (poke (p + 8) 0x49 s1) (p + 8), mem s2 (q + 8))))
   = Inr (0x100020, 9, 0x100030, 0x49, 0x0A)"
  by (simp add: run_defs)

end
